theory Spec2Isabelle
  imports Complex_Main
begin

section \<open>Excel-Art: an image as a sheet of coloured cells\<close>

text \<open>
  The repository holds two scripts, \<^verbatim>\<open>script.py\<close> and \<^verbatim>\<open>scriptV2.py\<close>. Both load a
  PNG/JPG image, read the colour of every pixel and write a workbook whose cell at row
  \<open>y + 1\<close>, column \<open>x + 1\<close> is filled with the colour of pixel \<open>(x, y)\<close>. The second
  script keeps a cache of fill objects, one per colour, and asks a three-way question on
  large images. Functions that the two scripts share word for word are embedded once;
  functions that differ carry the suffix \<open>_v1\<close> (\<^verbatim>\<open>script.py\<close>) or \<open>_v2\<close>
  (\<^verbatim>\<open>scriptV2.py\<close>).
\<close>

subsection \<open>Colour codec: \<^verbatim>\<open>rgb_to_hex\<close>\<close>

text \<open>
  A pixel is the tuple of three Python integers that \<^verbatim>\<open>getpixel\<close> returns for an RGB
  image. Python integers are unbounded, so the channels are of type \<open>int\<close>; the range
  0 to 255 is a property of decoded images, not of the type.
\<close>

type_synonym pixel = "int \<times> int \<times> int"

definition hex_char :: "nat \<Rightarrow> char" where
  "hex_char d = ''0123456789ABCDEF'' ! d"

text \<open>The upper-case hexadecimal digits of a natural number, most significant first.\<close>

fun hex_digits :: "nat \<Rightarrow> string" where
  "hex_digits n = (if n < 16 then [hex_char n] else hex_digits (n div 16) @ [hex_char (n mod 16)])"

declare hex_digits.simps [simp del]

text \<open>
  The format specification \<^verbatim>\<open>02X\<close>: upper-case hexadecimal, zero-padded to a minimum
  width of two. The sign of a negative number counts towards the width and the padding
  goes between sign and digits, so a negative number is never padded.
\<close>

definition format_02X :: "int \<Rightarrow> string" where
  "format_02X n =
     (if n < 0 then CHR ''-'' # replicate (1 - length (hex_digits (nat (- n)))) CHR ''0''
                      @ hex_digits (nat (- n))
      else replicate (2 - length (hex_digits (nat n))) CHR ''0'' @ hex_digits (nat n))"

fun rgb_to_hex :: "pixel \<Rightarrow> string" where
  "rgb_to_hex (r, g, b) = format_02X r @ format_02X g @ format_02X b"

text \<open>
  The reading direction, written from the specification's words (the scripts never parse
  a colour key): a key is three fields of two upper-case hexadecimal digits each.
\<close>

fun position :: "'a \<Rightarrow> 'a list \<Rightarrow> nat option" where
  "position c [] = None"
| "position c (x # xs) = (if c = x then Some 0 else map_option Suc (position c xs))"

definition hex_value :: "char \<Rightarrow> nat option" where
  "hex_value c = position c ''0123456789ABCDEF''"

definition parse_field :: "char \<Rightarrow> char \<Rightarrow> int option" where
  "parse_field hi lo =
     (case (hex_value hi, hex_value lo) of
        (Some h, Some l) \<Rightarrow> Some (int (16 * h + l))
      | _ \<Rightarrow> None)"

fun parse_key :: "string \<Rightarrow> pixel option" where
  "parse_key [r1, r0, g1, g0, b1, b0] =
     (case (parse_field r1 r0, parse_field g1 g0, parse_field b1 b0) of
        (Some r, Some g, Some b) \<Rightarrow> Some (r, g, b)
      | _ \<Rightarrow> None)"
| "parse_key _ = None"

definition two_digits :: "int \<Rightarrow> string" where
  "two_digits n = [hex_char (nat n div 16), hex_char (nat n mod 16)]"

definition in_range :: "pixel \<Rightarrow> bool" where
  "in_range p = (case p of (r, g, b) \<Rightarrow>
     0 \<le> r \<and> r \<le> 255 \<and> 0 \<le> g \<and> g \<le> 255 \<and> 0 \<le> b \<and> b \<le> 255)"

definition upper_hex :: "char set" where
  "upper_hex = set ''0123456789ABCDEF''"

subsection \<open>Exceptions and \<^verbatim>\<open>for\<close> loops\<close>

text \<open>
  The exceptions that the scripts' own statements can raise: an index out of range, a
  missing dictionary key, a division by zero, and an exception coming out of a library
  call that no \<^verbatim>\<open>try\<close> encloses.
\<close>

datatype error = IndexError | KeyError | ZeroDivisionError | LibraryError

text \<open>
  A loop body takes the loop variable and the state and either finishes (\<open>Inr\<close>) or
  raises (\<open>Inl\<close>); an exception leaves the state as it was when it was raised, and ends
  the loop.
\<close>

fun for_each :: "('a \<Rightarrow> 's \<Rightarrow> (error \<times> 's) + 's) \<Rightarrow> 'a list \<Rightarrow> 's \<Rightarrow> (error \<times> 's) + 's" where
  "for_each body [] s = Inr s"
| "for_each body (x # xs) s =
     (case body x s of Inl failure \<Rightarrow> Inl failure | Inr s' \<Rightarrow> for_each body xs s')"

text \<open>\<^verbatim>\<open>xs[i]\<close> for a non-negative index.\<close>

definition item :: "'a list \<Rightarrow> nat \<Rightarrow> error + 'a" where
  "item xs i = (if i < length xs then Inr (xs ! i) else Inl IndexError)"

subsection \<open>Strings\<close>

text \<open>
  Paths and answers are strings of ASCII characters. \<^verbatim>\<open>str.lower\<close> maps \<^verbatim>\<open>A\<close> to
  \<^verbatim>\<open>Z\<close> to \<^verbatim>\<open>a\<close> to \<^verbatim>\<open>z\<close> and leaves every other character alone;
  \<^verbatim>\<open>str.strip\<close> removes the white space of \<^verbatim>\<open>str.isspace\<close> at both ends.
\<close>

definition lower_char :: "char \<Rightarrow> char" where
  "lower_char c =
     (case position c ''ABCDEFGHIJKLMNOPQRSTUVWXYZ'' of
        None \<Rightarrow> c
      | Some i \<Rightarrow> ''abcdefghijklmnopqrstuvwxyz'' ! i)"

definition lower :: "string \<Rightarrow> string" where
  "lower s = map lower_char s"

definition isspace :: "char \<Rightarrow> bool" where
  "isspace c = (c \<in> set [CHR 0x09, CHR 0x0A, CHR 0x0B, CHR 0x0C, CHR 0x0D,
                          CHR 0x1C, CHR 0x1D, CHR 0x1E, CHR 0x1F, CHR 0x20])"

definition strip :: "string \<Rightarrow> string" where
  "strip s = rev (dropWhile isspace (rev (dropWhile isspace s)))"

definition endswith :: "string \<Rightarrow> string \<Rightarrow> bool" where
  "endswith s suffix =
     (length suffix \<le> length s \<and> drop (length s - length suffix) s = suffix)"

subsection \<open>Images\<close>

text \<open>
  An image object as the scripts use it: its size \<open>(width, height)\<close> and its mode,
  which \<^verbatim>\<open>Image.open\<close> reads from the header of the file, and the pixel data.
  \<^verbatim>\<open>Image.open\<close> is lazy: the pixel data is decoded by the first call that needs it
  (\<^verbatim>\<open>getpixel\<close>, \<^verbatim>\<open>convert\<close>, \<^verbatim>\<open>quantize\<close>), and that call raises when the
  data cannot be decoded, a truncated file for instance. \<open>img_loads\<close> says whether the
  data can be decoded, \<open>img_data\<close> is the colour at every coordinate when it can.
\<close>

record image =
  img_size :: "nat \<times> nat"
  img_mode :: string
  img_loads :: bool
  img_data :: "nat \<times> nat \<Rightarrow> pixel"

text \<open>
  \<^verbatim>\<open>image.getpixel((x, y))\<close> first loads the pixel data, which raises when the data
  cannot be decoded, and then raises for a coordinate outside the image.
\<close>

definition getpixel :: "image \<Rightarrow> nat \<times> nat \<Rightarrow> error + pixel" where
  "getpixel img xy =
     (case xy of (x, y) \<Rightarrow>
        if \<not> img_loads img then Inl LibraryError
        else if x < fst (img_size img) \<and> y < snd (img_size img)
        then Inr (img_data img (x, y)) else Inl IndexError)"

subsection \<open>Workbooks\<close>

text \<open>
  A \<^verbatim>\<open>PatternFill\<close> object has a start colour, an end colour and a fill type. Every
  call of the constructor makes a new object; the objects made during a run are kept, in
  order, in a heap, and the handle of an object is its index there: two cells share one
  style object when they hold the same handle.
\<close>

record fill =
  start_color :: string
  end_color :: string
  fill_type :: string

definition PatternFill :: "string \<Rightarrow> string \<Rightarrow> string \<Rightarrow> fill" where
  "PatternFill sc ec ft = \<lparr>start_color = sc, end_color = ec, fill_type = ft\<rparr>"

text \<open>
  The part of a workbook that the scripts touch: the title of the active sheet, the
  width of the columns (by letter), the height of the rows, the fill handle of every
  cell that was assigned one (by row and column, both from 1), and the calculation mode.
\<close>

record workbook =
  title :: string
  column_dimensions :: "string \<rightharpoonup> rat"
  row_dimensions :: "nat \<rightharpoonup> rat"
  cells :: "nat \<times> nat \<rightharpoonup> nat"
  calcMode :: string

definition Workbook :: workbook where
  "Workbook = \<lparr>title = ''Sheet'', column_dimensions = Map.empty, row_dimensions = Map.empty,
               cells = Map.empty, calcMode = ''auto''\<rparr>"

definition set_column_width :: "string \<Rightarrow> rat \<Rightarrow> workbook \<Rightarrow> workbook" where
  "set_column_width letter w b = b\<lparr>column_dimensions := (column_dimensions b)(letter \<mapsto> w)\<rparr>"

definition set_row_height :: "nat \<Rightarrow> rat \<Rightarrow> workbook \<Rightarrow> workbook" where
  "set_row_height row h b = b\<lparr>row_dimensions := (row_dimensions b)(row \<mapsto> h)\<rparr>"

definition set_cell_fill :: "nat \<Rightarrow> nat \<Rightarrow> nat \<Rightarrow> workbook \<Rightarrow> workbook" where
  "set_cell_fill row column f b = b\<lparr>cells := (cells b)((row, column) \<mapsto> f)\<rparr>"

subsection \<open>What a run does to the outside\<close>

text \<open>Every \<^verbatim>\<open>print\<close> and every prompt of the two scripts, with the values it shows.\<close>

datatype msg =
    Msg_load_error
  | Msg_processing nat nat
  | Msg_creating
  | Msg_rows nat nat
  | Msg_rows_v2 nat nat nat nat nat
  | Msg_unique nat
  | Msg_saved string
  | Msg_note nat
  | Msg_save_error
  | Msg_not_found string
  | Msg_bad_extension
  | Msg_loading string
  | Msg_confirm nat
  | Msg_cancelled
  | Msg_size nat
  | Msg_recommend
  | Msg_option1
  | Msg_option2
  | Msg_option3
  | Msg_choose
  | Msg_reducing nat
  | Msg_done
  | Msg_processed nat nat
  | Msg_created string
  | Msg_tips
  | Msg_tip1
  | Msg_tip2
  | Msg_tip3

text \<open>
  The trace of a run: what it printed and which calls it made to the file system, the
  image library, the console and the workbook writer, in order. \<open>Ev_input\<close> is a call of
  \<^verbatim>\<open>input\<close>, which returns only when the user has answered; \<open>Ev_save\<close> is a call of
  \<^verbatim>\<open>workbook.save\<close> with the path, the workbook and the fill objects its cells refer to.
\<close>

datatype event =
    Ev_print msg
  | Ev_exists string
  | Ev_open string
  | Ev_convert string
  | Ev_quantize nat
  | Ev_getpixel "nat \<times> nat"
  | Ev_input msg
  | Ev_save string workbook "fill list"

text \<open>
  The libraries and the user are parameters of a run: whether a path exists, how a path
  splits into root and extension, the image a file decodes to (\<open>None\<close>: the library
  raises), mode conversion and quantisation, the letter of a column (\<open>None\<close>:
  \<^verbatim>\<open>get_column_letter\<close> raises), whether saving succeeds, and the line the user types
  at the prompt.
\<close>

record env =
  path_exists :: "string \<Rightarrow> bool"
  splitext :: "string \<Rightarrow> string \<times> string"
  image_open :: "string \<Rightarrow> image option"
  convert :: "image \<Rightarrow> string \<Rightarrow> image option"
  quantize :: "image \<Rightarrow> nat \<Rightarrow> image option"
  get_column_letter :: "nat \<Rightarrow> string option"
  save :: "workbook \<Rightarrow> fill list \<Rightarrow> string \<Rightarrow> bool"
  answer :: string

subsection \<open>\<^verbatim>\<open>load_image\<close> and \<^verbatim>\<open>get_pixel_colors\<close> (both scripts)\<close>

definition load_image :: "env \<Rightarrow> string \<Rightarrow> image option \<times> event list" where
  "load_image env image_path =
     (case image_open env image_path of
        None \<Rightarrow> (None, [Ev_open image_path, Ev_print Msg_load_error])
      | Some img \<Rightarrow>
          if img_mode img \<noteq> ''RGB'' then
            (case convert env img ''RGB'' of
               None \<Rightarrow> (None, [Ev_open image_path, Ev_convert ''RGB'', Ev_print Msg_load_error])
             | Some img' \<Rightarrow> (Some img', [Ev_open image_path, Ev_convert ''RGB'']))
          else (Some img, [Ev_open image_path]))"

text \<open>The inner loop: one more pixel of row \<open>y\<close>.\<close>

definition read_pixel ::
  "image \<Rightarrow> nat \<Rightarrow> nat \<Rightarrow> pixel list \<times> event list
     \<Rightarrow> (error \<times> pixel list \<times> event list) + pixel list \<times> event list" where
  "read_pixel img y x s =
     (case s of (row_colors, trace) \<Rightarrow>
        case getpixel img (x, y) of
          Inl e \<Rightarrow> Inl (e, row_colors, trace @ [Ev_getpixel (x, y)])
        | Inr pixel_color \<Rightarrow> Inr (row_colors @ [pixel_color], trace @ [Ev_getpixel (x, y)]))"

text \<open>The outer loop: one more row.\<close>

definition read_row ::
  "image \<Rightarrow> nat \<Rightarrow> nat \<Rightarrow> pixel list list \<times> event list
     \<Rightarrow> (error \<times> pixel list list \<times> event list) + pixel list list \<times> event list" where
  "read_row img width y s =
     (case s of (pixel_colors, trace) \<Rightarrow>
        case for_each (read_pixel img y) [0..<width] ([], trace) of
          Inl (e, row_colors, trace') \<Rightarrow> Inl (e, pixel_colors, trace')
        | Inr (row_colors, trace') \<Rightarrow> Inr (pixel_colors @ [row_colors], trace'))"

definition get_pixel_colors ::
  "image \<Rightarrow> (error + pixel list list \<times> nat \<times> nat) \<times> event list" where
  "get_pixel_colors img =
     (case img_size img of (width, height) \<Rightarrow>
        case for_each (read_row img width) [0..<height]
               ([], [Ev_print (Msg_processing width height)]) of
          Inl (e, pixel_colors, trace) \<Rightarrow> (Inl e, trace)
        | Inr (pixel_colors, trace) \<Rightarrow> (Inr (pixel_colors, width, height), trace))"

subsection \<open>\<^verbatim>\<open>create_excel_with_colors\<close>\<close>

text \<open>
  The state of \<^verbatim>\<open>create_excel_with_colors\<close>: the workbook, the fill objects made so
  far, what was printed, and, in \<^verbatim>\<open>scriptV2.py\<close> only, the cache from colour key to
  fill handle (a dictionary, in the order of insertion) and the counter of cells done.
  \<^verbatim>\<open>script.py\<close> has neither cache nor counter and leaves these two fields as they are.
\<close>

record state =
  wb :: workbook
  heap :: "fill list"
  fill_cache :: "(string \<times> nat) list"
  processed :: nat
  out :: "event list"

definition initial :: state where
  "initial = \<lparr>wb = Workbook\<lparr>title := ''Imagen_Pixeles''\<rparr>, heap = [], fill_cache = [],
              processed = 0, out = [Ev_print Msg_creating]\<rparr>"

text \<open>The two sizing loops, with the width and the height that each script uses.\<close>

definition size_column :: "env \<Rightarrow> rat \<Rightarrow> nat \<Rightarrow> state \<Rightarrow> (error \<times> state) + state" where
  "size_column env w col st =
     (case get_column_letter env col of
        None \<Rightarrow> Inl (LibraryError, st)
      | Some letter \<Rightarrow> Inr (st\<lparr>wb := set_column_width letter w (wb st)\<rparr>))"

definition size_row :: "rat \<Rightarrow> nat \<Rightarrow> state \<Rightarrow> (error \<times> state) + state" where
  "size_row h row st = Inr (st\<lparr>wb := set_row_height row h (wb st)\<rparr>)"

text \<open>A call of the constructor \<^verbatim>\<open>PatternFill(start_color=c, end_color=c, fill_type="solid")\<close>.\<close>

definition new_fill :: "string \<Rightarrow> state \<Rightarrow> nat \<times> state" where
  "new_fill hex_color st =
     (length (heap st), st\<lparr>heap := heap st @ [PatternFill hex_color hex_color ''solid'']\<rparr>)"

text \<open>\<^verbatim>\<open>script.py\<close>: the body of the loop over \<open>x\<close>, lines 61 to 69.\<close>

definition cell_v1 :: "pixel list list \<Rightarrow> nat \<Rightarrow> nat \<Rightarrow> state \<Rightarrow> (error \<times> state) + state" where
  "cell_v1 pixel_colors y x st =
     (case item pixel_colors y of
        Inl e \<Rightarrow> Inl (e, st)
      | Inr row \<Rightarrow>
          case item row x of
            Inl e \<Rightarrow> Inl (e, st)
          | Inr rgb_color \<Rightarrow>
              let hex_color = rgb_to_hex rgb_color;
                  (f, st') = new_fill hex_color st
              in Inr (st'\<lparr>wb := set_cell_fill (y + 1) (x + 1) f (wb st')\<rparr>))"

text \<open>\<^verbatim>\<open>script.py\<close>: the body of the loop over \<open>y\<close>, lines 60 to 73.\<close>

definition row_v1 ::
  "pixel list list \<Rightarrow> nat \<Rightarrow> nat \<Rightarrow> nat \<Rightarrow> state \<Rightarrow> (error \<times> state) + state" where
  "row_v1 pixel_colors width height y st =
     (case for_each (cell_v1 pixel_colors y) [0..<width] st of
        Inl failure \<Rightarrow> Inl failure
      | Inr st' \<Rightarrow>
          if (y + 1) mod 10 = 0
          then Inr (st'\<lparr>out := out st' @ [Ev_print (Msg_rows (y + 1) height)]\<rparr>)
          else Inr st')"

text \<open>\<^verbatim>\<open>script.py\<close>, lines 43 to 73: everything before the workbook is saved.\<close>

definition fill_sheet_v1 ::
  "env \<Rightarrow> pixel list list \<Rightarrow> nat \<Rightarrow> nat \<Rightarrow> (error \<times> state) + state" where
  "fill_sheet_v1 env pixel_colors width height =
     (case for_each (size_column env 2) [1..<width + 1] initial of
        Inl failure \<Rightarrow> Inl failure
      | Inr st1 \<Rightarrow>
          case for_each (size_row 15) [1..<height + 1] st1 of
            Inl failure \<Rightarrow> Inl failure
          | Inr st2 \<Rightarrow> for_each (row_v1 pixel_colors width height) [0..<height] st2)"

definition create_excel_with_colors_v1 ::
  "env \<Rightarrow> pixel list list \<Rightarrow> nat \<Rightarrow> nat \<Rightarrow> string \<Rightarrow> (error + bool) \<times> event list" where
  "create_excel_with_colors_v1 env pixel_colors width height output_path =
     (case fill_sheet_v1 env pixel_colors width height of
        Inl (e, st) \<Rightarrow> (Inl e, out st)
      | Inr st \<Rightarrow>
          if save env (wb st) (heap st) output_path
          then (Inr True, out st @ [Ev_save output_path (wb st) (heap st),
                                    Ev_print (Msg_saved output_path)])
          else (Inr False, out st @ [Ev_save output_path (wb st) (heap st),
                                     Ev_print Msg_save_error]))"

text \<open>\<^verbatim>\<open>fill_cache[hex_color]\<close>.\<close>

definition lookup :: "(string \<times> nat) list \<Rightarrow> string \<Rightarrow> error + nat" where
  "lookup cache k = (case map_of cache k of None \<Rightarrow> Inl KeyError | Some f \<Rightarrow> Inr f)"

text \<open>\<^verbatim>\<open>scriptV2.py\<close>, lines 71 to 76: a fill is made only for a key that the cache lacks.\<close>

definition remember :: "string \<Rightarrow> state \<Rightarrow> state" where
  "remember hex_color st =
     (if map_of (fill_cache st) hex_color = None
      then let (f, st') = new_fill hex_color st
           in st'\<lparr>fill_cache := fill_cache st' @ [(hex_color, f)]\<rparr>
      else st)"

text \<open>\<^verbatim>\<open>scriptV2.py\<close>: the body of the loop over \<open>x\<close>, lines 67 to 82.\<close>

definition cell_v2 :: "pixel list list \<Rightarrow> nat \<Rightarrow> nat \<Rightarrow> state \<Rightarrow> (error \<times> state) + state" where
  "cell_v2 pixel_colors y x st =
     (case item pixel_colors y of
        Inl e \<Rightarrow> Inl (e, st)
      | Inr row \<Rightarrow>
          case item row x of
            Inl e \<Rightarrow> Inl (e, st)
          | Inr rgb_color \<Rightarrow>
              let hex_color = rgb_to_hex rgb_color;
                  st' = remember hex_color st
              in case lookup (fill_cache st') hex_color of
                   Inl e \<Rightarrow> Inl (e, st')
                 | Inr f \<Rightarrow>
                     Inr (st'\<lparr>wb := set_cell_fill (y + 1) (x + 1) f (wb st'),
                              processed := processed st' + 1\<rparr>))"

text \<open>
  \<^verbatim>\<open>scriptV2.py\<close>: the body of the loop over \<open>y\<close>, lines 66 to 87. The progress line
  divides the counter by \<^verbatim>\<open>total_cells\<close>, which raises when that is zero; the quotient
  itself is a float that is only printed, so the message keeps both numbers.
\<close>

definition row_v2 ::
  "pixel list list \<Rightarrow> nat \<Rightarrow> nat \<Rightarrow> nat \<Rightarrow> nat \<Rightarrow> state \<Rightarrow> (error \<times> state) + state" where
  "row_v2 pixel_colors width height total_cells y st =
     (case for_each (cell_v2 pixel_colors y) [0..<width] st of
        Inl failure \<Rightarrow> Inl failure
      | Inr st' \<Rightarrow>
          if (y + 1) mod 10 = 0 then
            (if total_cells = 0 then Inl (ZeroDivisionError, st')
             else Inr (st'\<lparr>out := out st' @
                    [Ev_print (Msg_rows_v2 (y + 1) height (processed st') total_cells
                       (length (fill_cache st')))]\<rparr>))
          else Inr st')"

text \<open>\<^verbatim>\<open>scriptV2.py\<close>, lines 43 to 89: everything before the workbook is saved.\<close>

definition fill_sheet_v2 ::
  "env \<Rightarrow> pixel list list \<Rightarrow> nat \<Rightarrow> nat \<Rightarrow> (error \<times> state) + state" where
  "fill_sheet_v2 env pixel_colors width height =
     (case for_each (size_column env (3 / 2)) [1..<width + 1] initial of
        Inl failure \<Rightarrow> Inl failure
      | Inr st1 \<Rightarrow>
          case for_each (size_row 12) [1..<height + 1] st1 of
            Inl failure \<Rightarrow> Inl failure
          | Inr st2 \<Rightarrow>
              case for_each (row_v2 pixel_colors width height (width * height))
                     [0..<height] st2 of
                Inl failure \<Rightarrow> Inl failure
              | Inr st3 \<Rightarrow>
                  Inr (st3\<lparr>out := out st3 @
                         [Ev_print (Msg_unique (length (fill_cache st3)))]\<rparr>))"

definition create_excel_with_colors_v2 ::
  "env \<Rightarrow> pixel list list \<Rightarrow> nat \<Rightarrow> nat \<Rightarrow> string \<Rightarrow> (error + bool) \<times> event list" where
  "create_excel_with_colors_v2 env pixel_colors width height output_path =
     (case fill_sheet_v2 env pixel_colors width height of
        Inl (e, st) \<Rightarrow> (Inl e, out st)
      | Inr st \<Rightarrow>
          let book = (wb st)\<lparr>calcMode := ''manual''\<rparr>
          in if save env book (heap st) output_path
             then (Inr True, out st @ [Ev_save output_path book (heap st),
                                       Ev_print (Msg_saved output_path),
                                       Ev_print (Msg_note (width * height))])
             else (Inr False, out st @ [Ev_save output_path book (heap st),
                                        Ev_print Msg_save_error]))"

subsection \<open>\<^verbatim>\<open>reduce_colors\<close> (\<^verbatim>\<open>scriptV2.py\<close>)\<close>

definition reduce_colors :: "env \<Rightarrow> image \<Rightarrow> nat \<Rightarrow> (error + image) \<times> event list" where
  "reduce_colors env img max_colors =
     (if img_mode img \<noteq> ''P'' then
        (case quantize env img max_colors of
           None \<Rightarrow> (Inl LibraryError, [Ev_print (Msg_reducing max_colors), Ev_quantize max_colors])
         | Some quantized \<Rightarrow>
             case convert env quantized ''RGB'' of
               None \<Rightarrow> (Inl LibraryError, [Ev_print (Msg_reducing max_colors),
                                          Ev_quantize max_colors, Ev_convert ''RGB''])
             | Some img' \<Rightarrow> (Inr img', [Ev_print (Msg_reducing max_colors),
                                           Ev_quantize max_colors, Ev_convert ''RGB'']))
      else (Inr img, [Ev_print (Msg_reducing max_colors)]))"

subsection \<open>\<^verbatim>\<open>image_to_excel\<close>\<close>

definition valid_extensions :: "string list" where
  "valid_extensions = [''.png'', ''.jpg'', ''.jpeg'', ''.PNG'', ''.JPG'', ''.JPEG'']"

definition has_valid_extension :: "string \<Rightarrow> bool" where
  "has_valid_extension image_path =
     list_ex (\<lambda>ext. endswith (lower image_path) ext) valid_extensions"

text \<open>Steps 3 and 4 of \<^verbatim>\<open>script.py\<close>, lines 115 to 128.\<close>

definition finish_v1 ::
  "env \<Rightarrow> string \<Rightarrow> pixel list list \<Rightarrow> nat \<Rightarrow> nat \<Rightarrow> (error + bool) \<times> event list" where
  "finish_v1 env image_path pixel_colors width height =
     (let output_path = fst (splitext env image_path) @ ''.xlsx''
      in case create_excel_with_colors_v1 env pixel_colors width height output_path of
           (Inl e, trace) \<Rightarrow> (Inl e, trace)
         | (Inr success, trace) \<Rightarrow>
             if success
             then (Inr True, trace @ [Ev_print Msg_done, Ev_print (Msg_processed width height),
                                      Ev_print (Msg_created output_path)])
             else (Inr False, trace))"

text \<open>\<^verbatim>\<open>script.py\<close>, lines 104 to 128: from the extraction on.\<close>

definition convert_v1 :: "env \<Rightarrow> string \<Rightarrow> image \<Rightarrow> (error + bool) \<times> event list" where
  "convert_v1 env image_path img =
     (case get_pixel_colors img of
        (Inl e, trace) \<Rightarrow> (Inl e, trace)
      | (Inr (pixel_colors, width, height), trace) \<Rightarrow>
          let total_pixels = width * height
          in if total_pixels > 10000 then
               (if lower (answer env) \<noteq> ''s''
                then (Inr False, trace @ [Ev_input (Msg_confirm total_pixels),
                                          Ev_print Msg_cancelled])
                else (case finish_v1 env image_path pixel_colors width height of
                        (r, trace') \<Rightarrow>
                          (r, trace @ [Ev_input (Msg_confirm total_pixels)] @ trace')))
             else (case finish_v1 env image_path pixel_colors width height of
                     (r, trace') \<Rightarrow> (r, trace @ trace')))"

definition image_to_excel_v1 :: "env \<Rightarrow> string \<Rightarrow> (error + bool) \<times> event list" where
  "image_to_excel_v1 env image_path =
     (if \<not> path_exists env image_path
      then (Inr False, [Ev_exists image_path, Ev_print (Msg_not_found image_path)])
      else if \<not> has_valid_extension image_path
      then (Inr False, [Ev_exists image_path, Ev_print Msg_bad_extension])
      else case load_image env image_path of
             (None, trace) \<Rightarrow>
               (Inr False, [Ev_exists image_path, Ev_print (Msg_loading image_path)] @ trace)
           | (Some img, trace) \<Rightarrow>
               (case convert_v1 env image_path img of
                  (r, trace') \<Rightarrow>
                    (r, [Ev_exists image_path, Ev_print (Msg_loading image_path)]
                         @ trace @ trace')))"

text \<open>Steps 2 to 4 of \<^verbatim>\<open>scriptV2.py\<close>, lines 149 to 169.\<close>

definition finish_v2 :: "env \<Rightarrow> string \<Rightarrow> image \<Rightarrow> (error + bool) \<times> event list" where
  "finish_v2 env image_path img =
     (case get_pixel_colors img of
        (Inl e, trace) \<Rightarrow> (Inl e, trace)
      | (Inr (pixel_colors, width, height), trace) \<Rightarrow>
          let output_path = fst (splitext env image_path) @ ''.xlsx''
          in case create_excel_with_colors_v2 env pixel_colors width height output_path of
               (Inl e, trace') \<Rightarrow> (Inl e, trace @ trace')
             | (Inr success, trace') \<Rightarrow>
                 if success
                 then (Inr True, trace @ trace' @
                         [Ev_print Msg_done, Ev_print (Msg_processed width height),
                          Ev_print (Msg_created output_path), Ev_print Msg_tips,
                          Ev_print Msg_tip1, Ev_print Msg_tip2, Ev_print Msg_tip3])
                 else (Inr False, trace @ trace'))"

text \<open>The five lines printed before the question of \<^verbatim>\<open>scriptV2.py\<close>, then the question.\<close>

definition menu :: "nat \<Rightarrow> event list" where
  "menu total_pixels =
     [Ev_print (Msg_size total_pixels), Ev_print Msg_recommend, Ev_print Msg_option1,
      Ev_print Msg_option2, Ev_print Msg_option3, Ev_input Msg_choose]"

text \<open>\<^verbatim>\<open>scriptV2.py\<close>, lines 132 to 169: from the size guard on.\<close>

definition convert_v2 :: "env \<Rightarrow> string \<Rightarrow> image \<Rightarrow> (error + bool) \<times> event list" where
  "convert_v2 env image_path img =
     (let total_pixels = fst (img_size img) * snd (img_size img)
      in if total_pixels > 10000 then
           (let choice = strip (answer env)
            in if choice = ''1'' then
                 (case reduce_colors env img 256 of
                    (Inl e, trace) \<Rightarrow> (Inl e, menu total_pixels @ trace)
                  | (Inr img', trace) \<Rightarrow>
                      (case finish_v2 env image_path img' of
                         (r, trace') \<Rightarrow> (r, menu total_pixels @ trace @ trace')))
               else if choice = ''3'' then
                 (Inr False, menu total_pixels @ [Ev_print Msg_cancelled])
               else (case finish_v2 env image_path img of
                       (r, trace') \<Rightarrow> (r, menu total_pixels @ trace')))
         else finish_v2 env image_path img)"

definition image_to_excel_v2 :: "env \<Rightarrow> string \<Rightarrow> (error + bool) \<times> event list" where
  "image_to_excel_v2 env image_path =
     (if \<not> path_exists env image_path
      then (Inr False, [Ev_exists image_path, Ev_print (Msg_not_found image_path)])
      else if \<not> has_valid_extension image_path
      then (Inr False, [Ev_exists image_path, Ev_print Msg_bad_extension])
      else case load_image env image_path of
             (None, trace) \<Rightarrow>
               (Inr False, [Ev_exists image_path, Ev_print (Msg_loading image_path)] @ trace)
           | (Some img, trace) \<Rightarrow>
               (case convert_v2 env image_path img of
                  (r, trace') \<Rightarrow>
                    (r, [Ev_exists image_path, Ev_print (Msg_loading image_path)]
                         @ trace @ trace')))"

subsection \<open>Reading a trace and a sheet\<close>

fun is_getpixel :: "event \<Rightarrow> bool" where
  "is_getpixel (Ev_getpixel xy) = True"
| "is_getpixel _ = False"

fun is_input :: "event \<Rightarrow> bool" where
  "is_input (Ev_input m) = True"
| "is_input _ = False"

fun is_save :: "event \<Rightarrow> bool" where
  "is_save (Ev_save p b fs) = True"
| "is_save _ = False"

fun is_decode :: "event \<Rightarrow> bool" where
  "is_decode (Ev_open p) = True"
| "is_decode (Ev_convert m) = True"
| "is_decode (Ev_quantize n) = True"
| "is_decode _ = False"

text \<open>The guard triggered: the run asked its question.\<close>

definition prompted :: "event list \<Rightarrow> bool" where
  "prompted trace = list_ex is_input trace"

text \<open>No pixel is read before the first question is answered.\<close>

definition extraction_waits :: "event list \<Rightarrow> bool" where
  "extraction_waits trace =
     list_all (\<lambda>e. \<not> is_getpixel e) (takeWhile (\<lambda>e. \<not> is_input e) trace)"

text \<open>The coordinates of an image of the given size, row by row.\<close>

definition row_major :: "nat \<Rightarrow> nat \<Rightarrow> (nat \<times> nat) list" where
  "row_major width height = concat (map (\<lambda>y. map (\<lambda>x. (x, y)) [0..<width]) [0..<height])"

text \<open>A grid has the given size: that many rows, each of that many pixels.\<close>

definition grid_of_size :: "pixel list list \<Rightarrow> nat \<Rightarrow> nat \<Rightarrow> bool" where
  "grid_of_size pixel_colors width height =
     (length pixel_colors = height \<and> list_all (\<lambda>row. length row = width) pixel_colors)"




text \<open>
  For examples: an image whose pixel at \<open>(x, y)\<close> is \<open>(x, y, 0)\<close>, and an environment
  where every path exists and opens as the given image, conversion and quantisation
  return the image as it is, columns 1 to 26 have letters and saving succeeds.
\<close>

definition sample_image :: "nat \<Rightarrow> nat \<Rightarrow> image" where
  "sample_image width height =
     \<lparr>img_size = (width, height), img_mode = ''RGB'', img_loads = True,
      img_data = (\<lambda>xy. (int (fst xy), int (snd xy), 0))\<rparr>"


subsection \<open>Notions used in the proofs\<close>

text \<open>The state in which a loop ended, whether it finished or raised.\<close>

definition final :: "(error \<times> 's) + 's \<Rightarrow> 's" where
  "final r = (case r of Inl (e, s) \<Rightarrow> s | Inr s \<Rightarrow> s)"

text \<open>The pixels of an image as a grid, row by row.\<close>

definition grid_of :: "image \<Rightarrow> nat \<Rightarrow> nat \<Rightarrow> pixel list list" where
  "grid_of img width height = map (\<lambda>y. map (\<lambda>x. img_data img (x, y)) [0..<width]) [0..<height]"













subsection \<open>What the claims speak of\<close>






section \<open>Proofs\<close>

subsection \<open>Facts about the codec\<close>

lemma position_nth:
  assumes "distinct xs" and "d < length xs"
  shows "position (xs ! d) xs = Some d"
  using assms
proof (induction xs arbitrary: d)
  case Nil
  then show ?case by simp
next
  case (Cons x xs)
  show ?case
  proof (cases d)
    case 0
    then show ?thesis by simp
  next
    case (Suc k)
    with Cons.prems have k: "k < length xs" and "x \<notin> set xs" and "distinct xs"
      by simp_all
    then have "xs ! k \<noteq> x"
      using nth_mem by metis
    with Cons.IH [OF \<open>distinct xs\<close> k] Suc show ?thesis
      by simp
  qed
qed

lemma position_None: "position c xs = None \<longleftrightarrow> c \<notin> set xs"
  by (induction xs) auto

lemma position_Some:
  assumes "position c xs = Some i"
  shows "i < length xs \<and> xs ! i = c"
  using assms
proof (induction xs arbitrary: i)
  case Nil
  then show ?case by simp
next
  case (Cons x xs)
  show ?case
  proof (cases "c = x")
    case True
    with Cons.prems show ?thesis by simp
  next
    case False
    with Cons.prems obtain k where "position c xs = Some k" and "i = Suc k"
      by auto
    with Cons.IH show ?thesis by simp
  qed
qed

lemma hex_value_hex_char:
  assumes "d < 16"
  shows "hex_value (hex_char d) = Some d"
  unfolding hex_value_def hex_char_def
  by (rule position_nth) (use assms in simp_all)

lemma hex_digits_small:
  assumes "n < 16"
  shows "hex_digits n = [hex_char n]"
  using assms by (subst hex_digits.simps) simp

lemma hex_digits_byte:
  assumes "\<not> n < 16" and "n < 256"
  shows "hex_digits n = [hex_char (n div 16), hex_char (n mod 16)]"
proof -
  from assms(2) have "n div 16 < 16" by simp
  then have "hex_digits (n div 16) = [hex_char (n div 16)]"
    by (rule hex_digits_small)
  with assms(1) show ?thesis
    by (subst hex_digits.simps) simp
qed

lemma hex_char_0: "hex_char 0 = CHR ''0''"
  by (simp add: hex_char_def)

lemma format_02X_byte:
  assumes "0 \<le> n" and "n \<le> 255"
  shows "format_02X n = two_digits n"
proof (cases "nat n < 16")
  case True
  with assms show ?thesis
    by (simp add: format_02X_def two_digits_def hex_digits_small hex_char_0)
next
  case False
  moreover from assms have "nat n < 256" by simp
  ultimately have "hex_digits (nat n) = [hex_char (nat n div 16), hex_char (nat n mod 16)]"
    by (rule hex_digits_byte)
  with assms show ?thesis
    by (simp add: format_02X_def two_digits_def)
qed

lemma parse_two_digits:
  assumes "0 \<le> n" and "n \<le> 255"
  shows "parse_field (hex_char (nat n div 16)) (hex_char (nat n mod 16)) = Some n"
proof -
  from assms have hi: "nat n div 16 < 16" by simp
  have lo: "nat n mod 16 < 16" by simp
  have "int (16 * (nat n div 16) + nat n mod 16) = n"
    using assms by simp
  then show ?thesis
    by (simp add: parse_field_def hex_value_hex_char [OF hi] hex_value_hex_char [OF lo])
qed

lemma rgb_to_hex_byte:
  assumes "in_range (r, g, b)"
  shows "rgb_to_hex (r, g, b) = two_digits r @ two_digits g @ two_digits b"
  using assms by (simp add: in_range_def format_02X_byte)

lemma parse_key_rgb_to_hex:
  assumes "in_range p"
  shows "parse_key (rgb_to_hex p) = Some p"
proof -
  obtain r g b where p: "p = (r, g, b)" by (cases p)
  with assms have rng: "0 \<le> r" "r \<le> 255" "0 \<le> g" "g \<le> 255" "0 \<le> b" "b \<le> 255"
    by (simp_all add: in_range_def)
  have "rgb_to_hex p = two_digits r @ two_digits g @ two_digits b"
    using assms p rgb_to_hex_byte by simp
  then show ?thesis
    using rng by (simp add: p two_digits_def parse_two_digits)
qed

lemma hex_char_upper_hex:
  assumes "d < 16"
  shows "hex_char d \<in> upper_hex"
  unfolding hex_char_def upper_hex_def by (rule nth_mem) (use assms in simp)

lemma two_digits_upper_hex:
  assumes "0 \<le> n" and "n \<le> 255"
  shows "set (two_digits n) \<subseteq> upper_hex"
proof -
  from assms have "nat n div 16 < 16" by simp
  moreover have "nat n mod 16 < 16" by simp
  ultimately show ?thesis
    by (simp add: two_digits_def hex_char_upper_hex)
qed

lemma length_two_digits: "length (two_digits n) = 2"
  by (simp add: two_digits_def)

lemma rgb_to_hex_inj:
  assumes "in_range p" and "in_range q" and "rgb_to_hex p = rgb_to_hex q"
  shows "p = q"
proof -
  have "Some p = parse_key (rgb_to_hex p)"
    using parse_key_rgb_to_hex [OF assms(1)] by simp
  also have "\<dots> = parse_key (rgb_to_hex q)"
    using assms(3) by simp
  also have "\<dots> = Some q"
    by (rule parse_key_rgb_to_hex [OF assms(2)])
  finally show ?thesis by simp
qed

text \<open>
  Claim C2. For every channel triple with each component between 0 and 255,
  \<open>rgb_to_hex\<close> returns a string of six upper-case hexadecimal characters, which is the
  concatenation red, green, blue of each channel written with two digits (zero-padded);
  reading the string back as three two-digit fields gives the triple again; so two
  triples in range with the same key are equal.
\<close>

theorem rgb_to_hex_roundtrip:
  assumes "in_range p" and "in_range q"
  shows "length (rgb_to_hex p) = 6
    \<and> set (rgb_to_hex p) \<subseteq> upper_hex
    \<and> rgb_to_hex p = two_digits (fst p) @ two_digits (fst (snd p)) @ two_digits (snd (snd p))
    \<and> parse_key (rgb_to_hex p) = Some p
    \<and> (rgb_to_hex p = rgb_to_hex q \<longrightarrow> p = q)"
proof -
  obtain r g b where p: "p = (r, g, b)" by (cases p)
  with assms have rng: "0 \<le> r" "r \<le> 255" "0 \<le> g" "g \<le> 255" "0 \<le> b" "b \<le> 255"
    by (simp_all add: in_range_def)
  have key: "rgb_to_hex p = two_digits r @ two_digits g @ two_digits b"
    unfolding p using assms(1) [unfolded p] by (rule rgb_to_hex_byte)
  have len: "length (rgb_to_hex p) = 6"
    unfolding key by (simp add: length_two_digits)
  have upper: "set (rgb_to_hex p) \<subseteq> upper_hex"
    unfolding key using rng by (simp add: two_digits_upper_hex)
  have key2: "rgb_to_hex p = two_digits (fst p) @ two_digits (fst (snd p)) @ two_digits (snd (snd p))"
    unfolding key by (simp add: p)
  have rt: "parse_key (rgb_to_hex p) = Some p"
    by (rule parse_key_rgb_to_hex [OF assms(1)])
  have inj: "rgb_to_hex p = rgb_to_hex q \<longrightarrow> p = q"
    using rgb_to_hex_inj [OF assms] by blast
  from len upper key2 rt inj show ?thesis
    by blast
qed

theorem rgb_to_hex_roundtrip_witness:
  "in_range (255, 0, 10) \<and> in_range (0, 128, 255)
    \<and> rgb_to_hex (255, 0, 10) = ''FF000A''
    \<and> parse_key ''FF000A'' = Some (255, 0, 10)
    \<and> rgb_to_hex (255, 0, 10) \<noteq> rgb_to_hex (0, 128, 255)"
proof -
  have a: "in_range (255, 0, 10)" and b: "in_range (0, 128, 255)"
    by (simp_all add: in_range_def)
  have k: "two_digits 255 @ two_digits 0 @ two_digits 10 = ''FF000A''"
    by (simp add: two_digits_def hex_char_def)
  note r = rgb_to_hex_roundtrip [OF a b, unfolded fst_conv snd_conv]
  have 1: "rgb_to_hex (255, 0, 10) = two_digits 255 @ two_digits 0 @ two_digits 10"
    and 2: "parse_key (rgb_to_hex (255, 0, 10)) = Some (255, 0, 10)"
    and 3: "rgb_to_hex (255, 0, 10) = rgb_to_hex (0, 128, 255) \<longrightarrow> ((255, 0, 10) :: pixel) = (0, 128, 255)"
    using r by blast+
  from 3 have 4: "rgb_to_hex (255, 0, 10) \<noteq> rgb_to_hex (0, 128, 255)"
    by auto
  from 1 k have 5: "rgb_to_hex (255, 0, 10) = ''FF000A''"
    by (rule trans)
  from 2 have 6: "parse_key ''FF000A'' = Some (255, 0, 10)"
    unfolding 5 .
  from a b 5 6 4 show ?thesis
    by blast
qed

subsection \<open>Loops\<close>

lemma for_each_append:
  "for_each body (xs @ ys) s =
     (case for_each body xs s of Inl failure \<Rightarrow> Inl failure | Inr s' \<Rightarrow> for_each body ys s')"
  by (induction xs arbitrary: s) (auto split: sum.splits)



text \<open>A property that every step keeps, raising or not, holds where the loop ends.\<close>

lemma for_each_final:
  assumes "Q s"
    and "\<And>x s. Q s \<Longrightarrow> x \<in> set xs \<Longrightarrow> Q (final (body x s))"
  shows "Q (final (for_each body xs s))"
  using assms
proof (induction xs arbitrary: s)
  case Nil
  then show ?case by (simp add: final_def)
next
  case (Cons x xs)
  have step: "Q (final (body x s))"
    using Cons.prems by simp
  show ?case
  proof (cases "body x s")
    case (Inl failure)
    with step show ?thesis by simp
  next
    case (Inr s1)
    with step have "Q s1" by (simp add: final_def)
    then have "Q (final (for_each body xs s1))"
      using Cons.IH Cons.prems(2) by simp
    with Inr show ?thesis by simp
  qed
qed

subsection \<open>Extraction\<close>

lemma read_pixels:
  assumes "img_loads img" and "y < snd (img_size img)"
    and "\<forall>x \<in> set xs. x < fst (img_size img)"
  shows "for_each (read_pixel img y) xs (row, tr) =
    Inr (row @ map (\<lambda>x. img_data img (x, y)) xs, tr @ map (\<lambda>x. Ev_getpixel (x, y)) xs)"
  using assms
  by (induction xs arbitrary: row tr) (simp_all add: read_pixel_def getpixel_def)

lemma read_row_ok:
  assumes "img_loads img" and "img_size img = (w, h)" and "y < h"
  shows "read_row img w y (grid, tr) =
    Inr (grid @ [map (\<lambda>x. img_data img (x, y)) [0..<w]],
         tr @ map (\<lambda>x. Ev_getpixel (x, y)) [0..<w])"
  using assms by (simp add: read_row_def read_pixels)

lemma read_rows:
  assumes "img_loads img" and "img_size img = (w, h)" and "\<forall>y \<in> set ys. y < h"
  shows "for_each (read_row img w) ys (grid, tr) =
    Inr (grid @ map (\<lambda>y. map (\<lambda>x. img_data img (x, y)) [0..<w]) ys,
         tr @ concat (map (\<lambda>y. map (\<lambda>x. Ev_getpixel (x, y)) [0..<w]) ys))"
  using assms(3)
proof (induction ys arbitrary: grid tr)
  case Nil
  then show ?case by simp
next
  case (Cons y ys)
  then have "y < h" by simp
  from read_row_ok [OF assms(1,2) this] Cons show ?case
    by simp
qed

lemma get_pixel_colors_eq:
  assumes "img_loads img" and "img_size img = (w, h)"
  shows "get_pixel_colors img =
    (Inr (grid_of img w h, w, h), Ev_print (Msg_processing w h) # map Ev_getpixel (row_major w h))"
proof -
  have "for_each (read_row img w) [0..<h] ([], [Ev_print (Msg_processing w h)]) =
    Inr ([] @ grid_of img w h,
      [Ev_print (Msg_processing w h)] @
        concat (map (\<lambda>y. map (\<lambda>x. Ev_getpixel (x, y)) [0..<w]) [0..<h]))"
    unfolding grid_of_def by (rule read_rows [OF assms]) simp
  moreover have "concat (map (\<lambda>y. map (\<lambda>x. Ev_getpixel (x, y)) [0..<w]) [0..<h])
      = map Ev_getpixel (row_major w h)"
    by (simp add: row_major_def map_concat comp_def)
  ultimately show ?thesis
    using assms(2) by (simp add: get_pixel_colors_def)
qed

lemma grid_of_size_grid_of: "grid_of_size (grid_of img w h) w h"
  by (simp add: grid_of_size_def grid_of_def list_all_iff)

lemma grid_of_nth:
  assumes "y < h" and "x < w"
  shows "grid_of img w h ! y ! x = img_data img (x, y)"
  using assms by (simp add: grid_of_def)

lemma row_major_Suc:
  "row_major w (Suc h) = row_major w h @ map (\<lambda>x. (x, h)) [0..<w]"
  by (simp add: row_major_def)

lemma upt_next_row: "[0..<w * Suc h] = [0..<w * h] @ map (\<lambda>x. x + w * h) [0..<w]"
proof -
  have "[0..<w * h + w] = [0..<w * h] @ [w * h..<w * h + w]"
    by (rule upt_add_eq_append) simp
  moreover have "[w * h..<w * h + w] = map (\<lambda>x. x + w * h) [0..<w]"
    using map_add_upt [of "w * h" w] by (simp only: add.commute [of w "w * h"])
  ultimately have "[0..<w * h + w] = [0..<w * h] @ map (\<lambda>x. x + w * h) [0..<w]"
    by (rule trans [OF _ arg_cong])
  moreover have "w * Suc h = w * h + w"
    by simp
  ultimately show ?thesis
    by (simp only:)
qed

lemma coordinates_of_row:
  "map (\<lambda>i. (i mod w, i div w)) (map (\<lambda>x. x + w * h) [0..<w]) = map (\<lambda>x. (x, h)) [0..<w]"
  by simp

lemma row_major_index: "row_major w h = map (\<lambda>i. (i mod w, i div w)) [0..<w * h]"
proof (induction h)
  case 0
  then show ?case by (simp add: row_major_def)
next
  case (Suc h)
  show ?case
    unfolding row_major_Suc upt_next_row map_append coordinates_of_row Suc ..
qed
lemma length_row_major: "length (row_major w h) = w * h"
  by (simp add: row_major_index)

lemma row_major_nth:
  assumes "y < h" and "x < w"
  shows "row_major w h ! (y * w + x) = (x, y)"
proof -
  have "y * w + x < Suc y * w"
    using assms(2) by simp
  also have "\<dots> \<le> h * w"
    using assms(1) by (simp only: mult_le_mono1 Suc_leI)
  finally have "y * w + x < w * h"
    by (simp add: mult.commute)
  then show ?thesis
    using assms by (simp add: row_major_index)
qed

lemma distinct_row_major: "distinct (row_major w h)"
proof -
  have "inj_on (\<lambda>i. (i mod w, i div w)) A" for A :: "nat set"
  proof (rule inj_onI)
    fix i j
    assume "(i mod w, i div w) = (j mod w, j div w)"
    then have "i mod w = j mod w" and "i div w = j div w"
      by simp_all
    then show "i = j"
      by (metis div_mult_mod_eq)
  qed
  then show ?thesis
    by (simp add: row_major_index distinct_map)
qed

lemma set_row_major: "set (row_major w h) = {0..<w} \<times> {0..<h}"
  by (auto simp: row_major_def)

text \<open>
  Claim C3. For an image of size (width, height) whose pixel data can be decoded (the
  decoded image of the specification), \<open>get_pixel_colors\<close> returns a grid
  of exactly that size together with the width and the height; it reads the
  coordinates in row-major order (the coordinate read at position \<open>y * width + x\<close> is
  \<open>(x, y)\<close>), every coordinate with \<open>x < width\<close> and \<open>y < height\<close> exactly once, and
  the pixel read at \<open>(x, y)\<close> is the entry \<open>[y][x]\<close> of the grid.
\<close>

theorem get_pixel_colors_grid:
  assumes "img_loads img" and "img_size img = (width, height)"
  shows "\<exists>pixel_colors.
      get_pixel_colors img =
        (Inr (pixel_colors, width, height),
         Ev_print (Msg_processing width height) # map Ev_getpixel (row_major width height))
    \<and> grid_of_size pixel_colors width height
    \<and> (\<forall>y<height. \<forall>x<width. pixel_colors ! y ! x = img_data img (x, y))
    \<and> length (row_major width height) = width * height
    \<and> (\<forall>y<height. \<forall>x<width. row_major width height ! (y * width + x) = (x, y))
    \<and> distinct (row_major width height)
    \<and> set (row_major width height) = {0..<width} \<times> {0..<height}"
proof (intro exI conjI allI impI)
  show "get_pixel_colors img =
      (Inr (grid_of img width height, width, height),
       Ev_print (Msg_processing width height) # map Ev_getpixel (row_major width height))"
    by (rule get_pixel_colors_eq [OF assms])
  show "grid_of_size (grid_of img width height) width height"
    by (rule grid_of_size_grid_of)
  show "grid_of img width height ! y ! x = img_data img (x, y)"
    if "y < height" and "x < width" for x y
    using that by (rule grid_of_nth)
  show "length (row_major width height) = width * height"
    by (rule length_row_major)
  show "row_major width height ! (y * width + x) = (x, y)"
    if "y < height" and "x < width" for x y
    using that by (rule row_major_nth)
  show "distinct (row_major width height)"
    by (rule distinct_row_major)
  show "set (row_major width height) = {0..<width} \<times> {0..<height}"
    by (rule set_row_major)
qed

lemma row_major_2_2: "row_major 2 2 = [(0, 0), (1, 0), (0, 1), (1, 1)]"
  by code_simp

lemma grid_of_sample_2_2:
  "grid_of (sample_image 2 2) 2 2 = [[(0, 0, 0), (1, 0, 0)], [(0, 1, 0), (1, 1, 0)]]"
  by code_simp

theorem get_pixel_colors_grid_witness:
  "img_loads (sample_image 2 2) \<and> img_size (sample_image 2 2) = (2, 2)
    \<and> get_pixel_colors (sample_image 2 2) =
        (Inr ([[(0, 0, 0), (1, 0, 0)], [(0, 1, 0), (1, 1, 0)]], 2, 2),
         [Ev_print (Msg_processing 2 2), Ev_getpixel (0, 0), Ev_getpixel (1, 0),
          Ev_getpixel (0, 1), Ev_getpixel (1, 1)])"
proof -
  have loads: "img_loads (sample_image 2 2)"
    by (simp add: sample_image_def)
  have size: "img_size (sample_image 2 2) = (2, 2)"
    by (simp add: sample_image_def)
  from get_pixel_colors_grid [OF loads size] obtain pixel_colors where
    run: "get_pixel_colors (sample_image 2 2) =
      (Inr (pixel_colors, 2, 2), Ev_print (Msg_processing 2 2) # map Ev_getpixel (row_major 2 2))"
    by blast
  have "get_pixel_colors (sample_image 2 2) =
      (Inr (grid_of (sample_image 2 2) 2 2, 2, 2),
       Ev_print (Msg_processing 2 2) # map Ev_getpixel (row_major 2 2))"
    by (rule get_pixel_colors_eq [OF loads size])
  with run have "pixel_colors = grid_of (sample_image 2 2) 2 2"
    by simp
  with run loads size show ?thesis
    by (simp add: row_major_2_2 grid_of_sample_2_2)
qed

subsection \<open>One cell\<close>















subsection \<open>The sizing loops\<close>




subsection \<open>Rows and sheets of \<^verbatim>\<open>script.py\<close>\<close>











subsection \<open>Rows and sheets of \<^verbatim>\<open>scriptV2.py\<close>\<close>







subsection \<open>The sheet shows the grid\<close>












subsection \<open>Fill objects and colour keys\<close>













subsection \<open>The scenario of two by two pixels\<close>















subsection \<open>The two scripts side by side\<close>
















end
